theory Spec2Isabelle
  imports
    Complex_Main
    "HOL-Library.Char_ord"
    "HOL-Library.List_Lexorder"
    "HOL-Library.Sublist"
    "HOL-Library.Multiset"
begin

section \<open>Strings\<close>

text \<open>
  Text is modelled as \<^typ>\<open>string\<close> over ASCII: one \<^typ>\<open>char\<close> per code unit.
  \<open>toLowerCase\<close> maps the letters \<open>A\<close> to \<open>Z\<close> to \<open>a\<close> to \<open>z\<close> and leaves every
  other character alone; \<open>trim\<close> removes the ASCII white space and line terminators
  (tab, line feed, vertical tab, form feed, carriage return, space) from both ends.
  Characters outside ASCII have no case and are never white space in this model.
\<close>

definition toLowerChar :: "char \<Rightarrow> char" where
  "toLowerChar c =
     (let n = (of_char c :: nat) in if 65 \<le> n \<and> n \<le> 90 then char_of (n + 32) else c)"

definition toLowerCase :: "string \<Rightarrow> string" where
  "toLowerCase s = map toLowerChar s"

definition isWhiteSpace :: "char \<Rightarrow> bool" where
  "isWhiteSpace c = (let n = (of_char c :: nat) in (9 \<le> n \<and> n \<le> 13) \<or> n = 32)"

definition trim :: "string \<Rightarrow> string" where
  "trim s = rev (dropWhile isWhiteSpace (rev (dropWhile isWhiteSpace s)))"

text \<open>
  \<open>s.includes(q)\<close>: \<open>q\<close> occurs in \<open>s\<close> as a contiguous run of characters, starting at
  some position of \<open>s\<close> (the end included, for the empty \<open>q\<close>).
\<close>

fun str_includes :: "'a list \<Rightarrow> 'a list \<Rightarrow> bool" where
  "str_includes [] q = (q = [])"
| "str_includes (c # s) q = (prefix q (c # s) \<or> str_includes s q)"

section \<open>Dates\<close>

text \<open>
  A \<open>Date\<close> holds a time value: the milliseconds since the epoch, or \<open>NaN\<close> for an
  invalid date (\<open>None\<close> here).
\<close>

datatype date = Date (getTime: "int option")

section \<open>Tasks (frontend/src/services/api.ts)\<close>

datatype priority = Low | Medium | High

text \<open>
  \<open>CreateTaskDto\<close> and \<open>Task\<close>: a \<open>Task\<close> is a \<open>CreateTaskDto\<close> with the store's
  \<open>_id\<close> and \<open>createdAt\<close>. Identifiers are modelled as natural numbers.
\<close>

record createTaskDto =
  title :: string
  description :: string
  completed :: bool
  priority :: priority
  dueDate :: "date option"
  category :: string

record task = createTaskDto +
  task_id :: nat
  createdAt :: date

text \<open>\<open>Partial<CreateTaskDto>\<close>: every field may be absent.\<close>

record taskPatch =
  p_title :: "string option"
  p_description :: "string option"
  p_completed :: "bool option"
  p_priority :: "priority option"
  p_dueDate :: "date option option"
  p_category :: "string option"

text \<open>The priority as the string the client compares and transmits.\<close>

fun priority_str :: "priority \<Rightarrow> string" where
  "priority_str Low = ''low''"
| "priority_str Medium = ''medium''"
| "priority_str High = ''high''"

section \<open>Client filter (App, \<open>filteredTasks\<close>)\<close>

definition matchesTab :: "string \<Rightarrow> task \<Rightarrow> bool" where
  "matchesTab activeTab t =
     (activeTab = ''all'' \<or>
      (activeTab = ''completed'' \<and> completed t) \<or>
      (activeTab = ''active'' \<and> \<not> completed t) \<or>
      (activeTab = ''high-priority'' \<and> priority_str (priority t) = ''high'') \<or>
      activeTab = category t)"

text \<open>
  The filter lowercases with \<open>String.prototype.toLowerCase\<close>, which belongs to the
  language and not to the repository: over all of Unicode it is neither restricted to
  the letters \<open>A\<close> to \<open>Z\<close> nor a map of single characters. The filter therefore takes
  it as the parameter \<open>lower\<close>, any function that gives for a text the sequence of
  code units of its lowercase form, in any type \<open>'u\<close> of code units; \<open>includes\<close> then
  looks for a run of code units. The restriction to ASCII, under which \<open>toLowerCase\<close>
  above is this function, is not needed here: for text beyond ASCII a \<^typ>\<open>string\<close>
  holds an encoding that tells any two texts apart, so that \<open>===\<close> on texts is
  equality of strings, and \<open>lower\<close> gives the code units.
\<close>

definition matchesSearch :: "(string \<Rightarrow> 'u list) \<Rightarrow> string \<Rightarrow> task \<Rightarrow> bool" where
  "matchesSearch lower searchQuery t =
     (str_includes (lower (title t)) (lower searchQuery) \<or>
      str_includes (lower (description t)) (lower searchQuery))"

definition filteredTasks ::
  "(string \<Rightarrow> 'u list) \<Rightarrow> task list \<Rightarrow> string \<Rightarrow> string \<Rightarrow> task list" where
  "filteredTasks lower tasks activeTab searchQuery =
     filter (\<lambda>t. matchesTab activeTab t \<and> matchesSearch lower searchQuery t) tasks"

section \<open>Due-date status (App, \<open>getDueDateStatus\<close>)\<close>

text \<open>
  \<open>setHours\<close> works in the local time of the browser, so the time zone is a parameter:
  the offset of local time from UTC in milliseconds, looked up by a UTC time value
  (\<open>LocalTime\<close>) and by a local time value (\<open>UTC\<close>, which for a local time that occurs
  twice takes the earlier instant).
\<close>

record timezone =
  offsetOfUTC :: "int \<Rightarrow> int"
  offsetOfLocal :: "int \<Rightarrow> int"

definition msPerDay :: int where
  "msPerDay = 1000 * 60 * 60 * 24"

definition LocalTime :: "timezone \<Rightarrow> int \<Rightarrow> int" where
  "LocalTime tz t = t + offsetOfUTC tz t"

definition UTC :: "timezone \<Rightarrow> int \<Rightarrow> int" where
  "UTC tz t = t - offsetOfLocal tz t"

definition TimeClip :: "int \<Rightarrow> int option" where
  "TimeClip t = (if \<bar>t\<bar> > 8640000000000000 then None else Some t)"

text \<open>\<open>d.setHours(0, 0, 0, 0)\<close>: midnight, local time, of the local day of \<open>d\<close>.\<close>

fun setHours0 :: "timezone \<Rightarrow> date \<Rightarrow> date" where
  "setHours0 tz (Date None) = Date None"
| "setHours0 tz (Date (Some t)) =
     Date (TimeClip (UTC tz ((LocalTime tz t div msPerDay) * msPerDay)))"

datatype dueDateStatus = Overdue | Today | Soon | Future

text \<open>
  Arithmetic on time values, \<open>NaN\<close> absorbing. The quotient \<open>diffDays\<close> is a rational
  here; the comparisons of the double with \<open>0\<close> and \<open>2\<close> come out the same, a
  difference of whole milliseconds being at least \<open>1 / 86400000\<close> away from either
  unless it is equal to it. Every comparison with \<open>NaN\<close> is false.
\<close>

fun num_sub :: "int option \<Rightarrow> int option \<Rightarrow> int option" where
  "num_sub (Some a) (Some b) = Some (a - b)"
| "num_sub _ _ = None"

fun num_div :: "int option \<Rightarrow> int \<Rightarrow> rat option" where
  "num_div (Some a) b = Some (of_int a / of_int b)"
| "num_div None b = None"

fun classify :: "rat option \<Rightarrow> dueDateStatus" where
  "classify None = Future"
| "classify (Some diffDays) =
     (if diffDays < 0 then Overdue
      else if diffDays = 0 then Today
      else if diffDays \<le> 2 then Soon
      else Future)"

text \<open>\<open>now\<close> is the time value of \<open>new Date()\<close>.\<close>

definition getDueDateStatus :: "timezone \<Rightarrow> int \<Rightarrow> date option \<Rightarrow> dueDateStatus option" where
  "getDueDateStatus tz now due =
     (case due of
        None \<Rightarrow> None
      | Some d \<Rightarrow>
          (let today = setHours0 tz (Date (Some now));
               dueDay = setHours0 tz (Date (getTime d));
               diffTime = num_sub (getTime dueDay) (getTime today);
               diffDays = num_div diffTime msPerDay
           in Some (classify diffDays)))"

text \<open>The local calendar day of a time value, as a day number.\<close>

definition localDay :: "timezone \<Rightarrow> int \<Rightarrow> int" where
  "localDay tz t = LocalTime tz t div msPerDay"

text \<open>A zone whose offset never changes, and UTC.\<close>

definition fixedZone :: "int \<Rightarrow> timezone" where
  "fixedZone off = \<lparr>offsetOfUTC = (\<lambda>_. off), offsetOfLocal = (\<lambda>_. off)\<rparr>"

text \<open>
  The zone of New York around the end of daylight saving time in 2024: four hours
  behind UTC until 2024-11-03T06:00:00Z (02:00 local), five hours behind from then on.
\<close>

definition newYork2024 :: timezone where
  "newYork2024 =
     \<lparr>offsetOfUTC = (\<lambda>t. if t < 1730613600000 then - 14400000 else - 18000000),
      offsetOfLocal = (\<lambda>l. if l < 1730613600000 - 14400000 then - 14400000 else - 18000000)\<rparr>"

section \<open>Documents, the store and HTTP responses\<close>

text \<open>
  The Category document of the schema (models/Category): \<open>name\<close> is required, unique,
  and passes through the setters \<open>lowercase\<close> and \<open>trim\<close>; \<open>createdAt\<close> defaults to the
  time of construction; \<open>_id\<close> is what the store identifies the document by. The
  library's version counter is left out.
\<close>

record category_doc =
  cat_id :: nat
  name :: string
  cat_createdAt :: date

text \<open>
  The database: the two collections, in insertion order, and the next fresh identifier.
\<close>

record db =
  categories :: "category_doc list"
  tasks :: "task list"
  nextId :: nat

datatype error =
    TypeError
  | ValidationError
  | DuplicateKey
  | NotFoundError
  | HttpError nat

datatype json =
    JNull
  | JBool bool
  | JNum int
  | JStr string
  | JArr "json list"
  | JObj "(string \<times> json) list"

record response =
  status :: nat
  body :: json

text \<open>
  The text of a library error is not modelled: the kind of the error stands for its
  message.
\<close>

fun err_message :: "error \<Rightarrow> string" where
  "err_message TypeError = ''TypeError''"
| "err_message ValidationError = ''ValidationError''"
| "err_message DuplicateKey = ''DuplicateKey''"
| "err_message NotFoundError = ''NotFoundError''"
| "err_message (HttpError n) = ''HttpError''"

definition message :: "string \<Rightarrow> json" where
  "message m = JObj [(''message'', JStr m)]"

text \<open>
  A date travels as its ISO-8601 string, an invalid one as \<open>null\<close>; the model keeps the
  time value that the string denotes.
\<close>

fun date_json :: "date \<Rightarrow> json" where
  "date_json (Date None) = JNull"
| "date_json (Date (Some t)) = JNum t"

definition category_json :: "category_doc \<Rightarrow> json" where
  "category_json c =
     JObj [(''_id'', JNum (int (cat_id c))),
           (''name'', JStr (name c)),
           (''createdAt'', date_json (cat_createdAt c))]"

text \<open>\<open>o.k\<close> on a parsed body: \<open>None\<close> is \<open>undefined\<close>.\<close>

fun field :: "json \<Rightarrow> string \<Rightarrow> json option" where
  "field (JObj kvs) k = map_of kvs k"
| "field _ k = None"

subsection \<open>The Category model\<close>

text \<open>
  The setters of the path \<open>name\<close>. The library runs them on a value that is assigned
  to a document and on a value that a query filter compares the path with.
\<close>

definition name_setters :: "string \<Rightarrow> string" where
  "name_setters v = trim (toLowerCase v)"

text \<open>\<open>Category.find().sort({ name: 1 })\<close>\<close>

definition Category_find_sorted :: "db \<Rightarrow> error + category_doc list" where
  "Category_find_sorted s = Inr (sort_key name (categories s))"

text \<open>\<open>Category.findOne({ name: v })\<close>\<close>

definition Category_findOne :: "db \<Rightarrow> string \<Rightarrow> error + category_doc option" where
  "Category_findOne s v = Inr (find (\<lambda>c. name c = name_setters v) (categories s))"

text \<open>\<open>new Category({ name: v })\<close>, constructed at time \<open>now\<close>\<close>

definition new_Category :: "db \<Rightarrow> int \<Rightarrow> string \<Rightarrow> category_doc" where
  "new_Category s now v =
     \<lparr>cat_id = nextId s, name = name_setters v, cat_createdAt = Date (Some now)\<rparr>"

text \<open>
  \<open>category.save()\<close>: validation (\<open>required\<close> rejects the empty string), then the
  insert, which the unique index on \<open>name\<close> rejects for a name already stored.
\<close>

definition Category_save :: "db \<Rightarrow> category_doc \<Rightarrow> error + (category_doc \<times> db)" where
  "Category_save s c =
     (if name c = [] then Inl ValidationError
      else if name c \<in> set (map name (categories s)) then Inl DuplicateKey
      else Inr (c, s\<lparr>categories := categories s @ [c], nextId := Suc (nextId s)\<rparr>))"

text \<open>\<open>Category.findByIdAndDelete(id)\<close>: the first document with this \<open>_id\<close> goes.\<close>

fun delete_first :: "('a \<Rightarrow> bool) \<Rightarrow> 'a list \<Rightarrow> 'a list" where
  "delete_first P [] = []"
| "delete_first P (x # xs) = (if P x then xs else x # delete_first P xs)"

definition Category_findByIdAndDelete :: "db \<Rightarrow> nat \<Rightarrow> error + db" where
  "Category_findByIdAndDelete s i =
     Inr (s\<lparr>categories := delete_first (\<lambda>c. cat_id c = i) (categories s)\<rparr>)"

section \<open>Category routes (server/routes/categories.js)\<close>

text \<open>\<open>router.get('/')\<close>\<close>

definition categoryList :: "db \<Rightarrow> response" where
  "categoryList s =
     (case Category_find_sorted s of
        Inl err \<Rightarrow> \<lparr>status = 500, body = message (err_message err)\<rparr>
      | Inr cs \<Rightarrow> \<lparr>status = 200, body = JArr (map (\<lambda>c. JStr (name c)) cs)\<rparr>)"

text \<open>
  \<open>router.post('/')\<close>, with \<open>req.body.name\<close> (\<open>None\<close>: the body has no string \<open>name\<close>,
  and \<open>toLowerCase\<close> throws) and the time of the request.
\<close>

definition categoryCreate :: "int \<Rightarrow> string option \<Rightarrow> db \<Rightarrow> response \<times> db" where
  "categoryCreate now req_name s =
     (case req_name of
        None \<Rightarrow> (\<lparr>status = 400, body = message (err_message TypeError)\<rparr>, s)
      | Some n \<Rightarrow>
          (case Category_findOne s (toLowerCase n) of
             Inl err \<Rightarrow> (\<lparr>status = 400, body = message (err_message err)\<rparr>, s)
           | Inr (Some existingCategory) \<Rightarrow>
               (\<lparr>status = 400, body = message ''Category already exists''\<rparr>, s)
           | Inr None \<Rightarrow>
               (case Category_save s (new_Category s now (toLowerCase n)) of
                  Inl err \<Rightarrow> (\<lparr>status = 400, body = message (err_message err)\<rparr>, s)
                | Inr (newCategory, s') \<Rightarrow>
                    (\<lparr>status = 201, body = category_json newCategory\<rparr>, s'))))"

text \<open>\<open>router.delete('/:name')\<close>\<close>

definition categoryDelete :: "string \<Rightarrow> db \<Rightarrow> response \<times> db" where
  "categoryDelete param_name s =
     (case Category_findOne s (toLowerCase param_name) of
        Inl err \<Rightarrow> (\<lparr>status = 500, body = message (err_message err)\<rparr>, s)
      | Inr None \<Rightarrow> (\<lparr>status = 404, body = message ''Category not found''\<rparr>, s)
      | Inr (Some c) \<Rightarrow>
          (case Category_findByIdAndDelete s (cat_id c) of
             Inl err \<Rightarrow> (\<lparr>status = 500, body = message (err_message err)\<rparr>, s)
           | Inr s' \<Rightarrow> (\<lparr>status = 200, body = message ''Category deleted''\<rparr>, s')))"

text \<open>
  \<open>createCategory\<close> of the client (services/api.ts): posts \<open>{ name }\<close>; a status
  outside 2xx is thrown; otherwise the result is \<open>response.data.name\<close>.
\<close>

definition createCategory :: "int \<Rightarrow> string \<Rightarrow> db \<Rightarrow> (error + json option) \<times> db" where
  "createCategory now n s =
     (let (r, s') = categoryCreate now (Some n) s
      in if 200 \<le> status r \<and> status r < 300 then (Inr (field (body r) ''name''), s')
         else (Inl (HttpError (status r)), s'))"

text \<open>
  The states of the store that the Category Service reaches from a store without
  categories.
\<close>

inductive reachable :: "db \<Rightarrow> bool" where
  init: "categories s = [] \<Longrightarrow> reachable s"
| create: "reachable s \<Longrightarrow> reachable (snd (categoryCreate now req_name s))"
| list: "reachable s \<Longrightarrow> r = categoryList s \<Longrightarrow> reachable s"
| delete: "reachable s \<Longrightarrow> reachable (snd (categoryDelete param_name s))"

text \<open>
  The invariant of the Category collection: no two documents have the same lowercased
  name.
\<close>

definition names_unique :: "db \<Rightarrow> bool" where
  "names_unique s = distinct (map (\<lambda>c. toLowerCase (name c)) (categories s))"

text \<open>What the schema's setters establish for every stored name.\<close>

definition names_normal :: "db \<Rightarrow> bool" where
  "names_normal s = list_all (\<lambda>c. toLowerCase (name c) = name c) (categories s)"

section \<open>Task Service\<close>

text \<open>
  The schema of a Task (models/Task) is among the source files: \<open>title\<close> is required
  and trimmed, \<open>description\<close> is trimmed. The routes that use it
  (server/routes/tasks.js) are not, so the two operations below follow the
  specification.
\<close>

text \<open>
  Modelled from the spec: Task Create, whose route (server/routes/tasks.js) is missing.
  "Input is a candidate Task lacking id/createdAt. Fails with ValidationError if title
  is empty after trimming. On success, assigns id and createdAt, persists, returns the
  full record."
\<close>

definition taskCreate :: "int \<Rightarrow> createTaskDto \<Rightarrow> db \<Rightarrow> (error + task) \<times> db" where
  "taskCreate now c s =
     (if trim (title c) = [] then (Inl ValidationError, s)
      else
        (let t = \<lparr>title = trim (title c), description = trim (description c),
                   completed = completed c, priority = priority c, dueDate = dueDate c,
                   category = category c, task_id = nextId s, createdAt = Date (Some now)\<rparr>
         in (Inr t, s\<lparr>tasks := tasks s @ [t], nextId := Suc (nextId s)\<rparr>)))"

text \<open>
  Modelled from the spec: the body of a Task Update request as the missing route
  (server/routes/tasks.js) receives it, "a partial field set". A request may carry any
  field of a Task, \<open>_id\<close> and \<open>createdAt\<close> included, so the body has a place for each.
\<close>

record patchBody = taskPatch +
  p_id :: "nat option"
  p_createdAt :: "date option"

text \<open>
  Modelled from the spec: the field replacement of Task Update, whose route
  (server/routes/tasks.js) is missing. "Applies only the supplied fields (unsupplied
  fields unchanged); id and createdAt are never mutable": a supplied \<open>_id\<close> or
  \<open>createdAt\<close> is not applied. With the data model, whose title and description are
  "trimmed" (the schema's \<open>trim\<close>), the two are stored trimmed.
\<close>

definition apply_patch :: "patchBody \<Rightarrow> task \<Rightarrow> task" where
  "apply_patch b t =
     t\<lparr>title := (case p_title b of None \<Rightarrow> title t | Some v \<Rightarrow> trim v),
       description := (case p_description b of None \<Rightarrow> description t | Some v \<Rightarrow> trim v),
       completed := (case p_completed b of None \<Rightarrow> completed t | Some v \<Rightarrow> v),
       priority := (case p_priority b of None \<Rightarrow> priority t | Some v \<Rightarrow> v),
       dueDate := (case p_dueDate b of None \<Rightarrow> dueDate t | Some v \<Rightarrow> v),
       category := (case p_category b of None \<Rightarrow> category t | Some v \<Rightarrow> v)\<rparr>"

text \<open>
  Modelled from the spec: the write of Task Update into the collection (the missing
  route's update-by-id): the first record that satisfies \<open>P\<close> is replaced.
\<close>

fun replace_first :: "('a \<Rightarrow> bool) \<Rightarrow> 'a \<Rightarrow> 'a list \<Rightarrow> 'a list" where
  "replace_first P y [] = []"
| "replace_first P y (x # xs) = (if P x then y # xs else x # replace_first P y xs)"

text \<open>
  Modelled from the spec: Task Update, whose route (server/routes/tasks.js) is missing.
  "Input is a Task identifier plus a partial field set. Fails with NotFoundError if the
  identifier does not exist. Applies only the supplied fields (unsupplied fields
  unchanged); id and createdAt are never mutable. Returns the updated record." With the
  data model: "title is never empty after trimming (creation/update must reject empty
  titles)".
\<close>

definition taskUpdate :: "nat \<Rightarrow> patchBody \<Rightarrow> db \<Rightarrow> (error + task) \<times> db" where
  "taskUpdate i b s =
     (case find (\<lambda>t. task_id t = i) (tasks s) of
        None \<Rightarrow> (Inl NotFoundError, s)
      | Some t \<Rightarrow>
          (if (case p_title b of None \<Rightarrow> False | Some v \<Rightarrow> trim v = [])
           then (Inl ValidationError, s)
           else
             (let t' = apply_patch b t
              in (Inr t', s\<lparr>tasks := replace_first (\<lambda>x. task_id x = i) t' (tasks s)\<rparr>))))"

text \<open>The status a failed operation is answered with (the table of the HTTP API).\<close>

fun http_status :: "error \<Rightarrow> nat" where
  "http_status ValidationError = 400"
| "http_status NotFoundError = 404"
| "http_status (HttpError n) = n"
| "http_status _ = 500"

section \<open>Client calls and handlers (services/api.ts, App)\<close>

text \<open>
  \<open>createTask\<close> and \<open>updateTask\<close>: the request, a failure status thrown, and the dates
  of the answer parsed back into \<open>Date\<close> values (which gives the time values sent).
\<close>

definition createTask :: "int \<Rightarrow> createTaskDto \<Rightarrow> db \<Rightarrow> (error + task) \<times> db" where
  "createTask now c s =
     (case taskCreate now c s of
        (Inl err, s') \<Rightarrow> (Inl (HttpError (http_status err)), s')
      | (Inr t, s') \<Rightarrow> (Inr t, s'))"

text \<open>
  The body that \<open>axios.patch\<close> sends for a \<open>Partial<CreateTaskDto>\<close>: the fields of the
  object, which has no \<open>_id\<close> and no \<open>createdAt\<close>.
\<close>

definition request_body :: "taskPatch \<Rightarrow> patchBody" where
  "request_body p =
     \<lparr>p_title = p_title p, p_description = p_description p, p_completed = p_completed p,
      p_priority = p_priority p, p_dueDate = p_dueDate p, p_category = p_category p,
      p_id = None, p_createdAt = None\<rparr>"

definition updateTask :: "nat \<Rightarrow> taskPatch \<Rightarrow> db \<Rightarrow> (error + task) \<times> db" where
  "updateTask i p s =
     (case taskUpdate i (request_body p) s of
        (Inl err, s') \<Rightarrow> (Inl (HttpError (http_status err)), s')
      | (Inr t, s') \<Rightarrow> (Inr t, s'))"

record toast =
  toast_title :: string
  toast_description :: string
  destructive :: bool

text \<open>The view state of \<open>App\<close> that the task handlers read and write.\<close>

record app =
  app_tasks :: "task list"
  newTask :: createTaskDto
  editingTask :: "task option"
  isDialogOpen :: bool
  isEditDialogOpen :: bool
  isSubmitting :: bool

definition emptyNewTask :: createTaskDto where
  "emptyNewTask =
     \<lparr>title = [], description = [], completed = False, priority = Medium,
      dueDate = None, category = ''personal''\<rparr>"

definition handleAddTask :: "int \<Rightarrow> app \<Rightarrow> db \<Rightarrow> app \<times> db \<times> toast" where
  "handleAddTask now a s =
     (if trim (title (newTask a)) = [] then
        (a, s, \<lparr>toast_title = ''Error'',
                toast_description = ''Task title cannot be empty'', destructive = True\<rparr>)
      else
        (case createTask now (newTask a) s of
           (Inr createdTask, s') \<Rightarrow>
             (a\<lparr>app_tasks := createdTask # app_tasks a, newTask := emptyNewTask,
                isDialogOpen := False, isSubmitting := False\<rparr>,
              s',
              \<lparr>toast_title = ''Task added'',
               toast_description = ''Your task has been added successfully'',
               destructive = False\<rparr>)
         | (Inl err, s') \<Rightarrow>
             (a\<lparr>isSubmitting := False\<rparr>,
              s',
              \<lparr>toast_title = ''Error'',
               toast_description = ''Failed to add task. Please try again.'',
               destructive = True\<rparr>)))"

text \<open>\<open>const { _id, createdAt, ...taskData } = editingTask\<close>\<close>

definition taskData :: "task \<Rightarrow> taskPatch" where
  "taskData t =
     \<lparr>p_title = Some (title t), p_description = Some (description t),
      p_completed = Some (completed t), p_priority = Some (priority t),
      p_dueDate = Some (dueDate t), p_category = Some (category t)\<rparr>"

definition saveEditedTask :: "app \<Rightarrow> db \<Rightarrow> app \<times> db \<times> toast option" where
  "saveEditedTask a s =
     (case editingTask a of
        None \<Rightarrow> (a, s, None)
      | Some e \<Rightarrow>
          (if trim (title e) = [] then
             (a, s, Some \<lparr>toast_title = ''Error'',
                          toast_description = ''Task title cannot be empty'',
                          destructive = True\<rparr>)
           else
             (case updateTask (task_id e) (taskData e) s of
                (Inr updatedTask, s') \<Rightarrow>
                  (a\<lparr>app_tasks :=
                       map (\<lambda>t. if task_id t = task_id e then updatedTask else t) (app_tasks a),
                     editingTask := None, isEditDialogOpen := False, isSubmitting := False\<rparr>,
                   s',
                   Some \<lparr>toast_title = ''Task updated'',
                         toast_description = ''Your task has been updated successfully'',
                         destructive = False\<rparr>)
              | (Inl err, s') \<Rightarrow>
                  (a\<lparr>isSubmitting := False\<rparr>,
                   s',
                   Some \<lparr>toast_title = ''Error'',
                         toast_description = ''Failed to update task. Please try again.'',
                         destructive = True\<rparr>))))"

section \<open>The filter as the specification words it\<close>

text \<open>
  The tab match read as a case distinction on the tab value: the four built-in tabs
  first, the category comparison for "any other tab value".
\<close>

definition spec_matchesTab :: "string \<Rightarrow> task \<Rightarrow> bool" where
  "spec_matchesTab tab t =
     (if tab = ''all'' then True
      else if tab = ''active'' then completed t = False
      else if tab = ''completed'' then completed t = True
      else if tab = ''high-priority'' then priority t = High
      else tab = category t)"

text \<open>
  For a map \<open>f\<close> of single characters: some run of consecutive characters of \<open>s\<close>
  equals \<open>q\<close> up to \<open>f\<close>, character by character.
\<close>

definition occurs_up_to :: "('c \<Rightarrow> 'c) \<Rightarrow> 'c list \<Rightarrow> 'c list \<Rightarrow> bool" where
  "occurs_up_to f q s =
     (\<exists>ps ms ss. s = ps @ ms @ ss \<and> list_all2 (\<lambda>a b. f a = f b) ms q)"

section \<open>The client filter\<close>

lemma str_includes_sublist: "str_includes s q = sublist q s"
  by (induction s) (simp_all add: sublist_Cons_right)

lemma priority_str_high: "(priority_str p = ''high'') = (p = High)"
  by (cases p) simp_all





text \<open>
  Where no task's category is called like a built-in tab, the tab match of the code is
  the case distinction.
\<close>

lemma spec_matchesTab_agrees:
  assumes "\<forall>t \<in> set ts. category t \<notin> {''active'', ''completed'', ''high-priority''}"
  shows "filteredTasks lower ts tab q =
     filter (\<lambda>t. spec_matchesTab tab t \<and> matchesSearch lower q t) ts"
  unfolding filteredTasks_def
  by (rule filter_cong [OF refl])
     (use assms in \<open>auto simp: matchesTab_def spec_matchesTab_def priority_str_high\<close>)

text \<open>
  Where lowercasing works character by character, as it does on ASCII text, the search
  match is an occurrence up to the case of letters.
\<close>

lemma same_fold_map: "list_all2 (\<lambda>a b. f a = f b) ms q = (map f ms = map f q)"
proof -
  have "(map f ms = map f q) = list_all2 (=) (map f ms) (map f q)"
    by (simp add: list.rel_eq)
  then show ?thesis
    by (simp add: list_all2_map1 list_all2_map2)
qed

lemma occurs_up_to_iff: "occurs_up_to f q s = str_includes (map f s) (map f q)"
proof
  assume "occurs_up_to f q s"
  then obtain ps ms ss where s: "s = ps @ ms @ ss" and m: "map f ms = map f q"
    by (auto simp: occurs_up_to_def same_fold_map)
  have "map f s = map f ps @ map f q @ map f ss"
    by (simp add: s m)
  then show "str_includes (map f s) (map f q)"
    unfolding str_includes_sublist sublist_def by blast
next
  assume "str_includes (map f s) (map f q)"
  then obtain ps' ss' where e: "map f s = ps' @ map f q @ ss'"
    by (auto simp: str_includes_sublist sublist_def)
  define n where "n = length ps'"
  define ps where "ps = take n s"
  define ms where "ms = take (length q) (drop n s)"
  define ss where "ss = drop (length q) (drop n s)"
  have s: "s = ps @ ms @ ss"
    by (simp add: ps_def ms_def ss_def del: drop_drop)
  have "map f ms = take (length q) (drop n (map f s))"
    by (simp add: ms_def take_map drop_map)
  also have "\<dots> = map f q"
    by (simp add: e n_def)
  finally have m: "map f ms = map f q" .
  show "occurs_up_to f q s"
    unfolding occurs_up_to_def same_fold_map using s m by blast
qed

lemma matchesSearch_ascii:
  "matchesSearch toLowerCase q t =
     (occurs_up_to toLowerChar q (title t) \<or> occurs_up_to toLowerChar q (description t))"
  by (simp add: matchesSearch_def occurs_up_to_iff toLowerCase_def)

section \<open>The due-date status\<close>

text \<open>
  C10: for a null due date the status is null, and only for a null due date: every
  task that has a due date gets one of the four classifications.
\<close>

theorem getDueDateStatus_null:
  "(getDueDateStatus tz now due = None) = (due = None)"
  by (simp add: getDueDateStatus_def Let_def split: option.split)

text \<open>
  C2 asks for \<open>soon\<close> whenever the due day is one or two calendar days ahead of
  today. The code takes the milliseconds between the two local midnights and divides
  by the length of a day of 24 hours. In New York at noon of 2024-11-02, a task due at
  noon of 2024-11-04 is due two calendar days ahead; the night of 2024-11-03 has 25
  hours, the two midnights are 49 hours apart, \<open>diffDays\<close> is more than \<open>2\<close>, and the
  status is \<open>future\<close>.
\<close>

theorem getDueDateStatus_dst_two_days_ahead:
  "localDay newYork2024 1730739600000 - localDay newYork2024 1730563200000 = 2
   \<and> getDueDateStatus newYork2024 1730563200000 (Some (Date (Some 1730739600000))) = Some Future"
  by (simp add: getDueDateStatus_def localDay_def newYork2024_def LocalTime_def UTC_def
      TimeClip_def msPerDay_def)

text \<open>
  In a zone whose offset never changes the classification is the one by calendar days
  (for dates whose midnights are time values in range).
\<close>

lemma classify_whole_days:
  "classify (num_div (Some (d * msPerDay)) msPerDay) =
     (if d < 0 then Overdue else if d = 0 then Today else if d \<le> 2 then Soon else Future)"
proof -
  have "(of_int (d * msPerDay) :: rat) / of_int msPerDay = of_int d"
    by (simp add: msPerDay_def)
  then show ?thesis
    by simp
qed

lemma setHours0_fixedZone:
  assumes "\<bar>localDay (fixedZone off) t * msPerDay - off\<bar> \<le> 8640000000000000"
  shows "setHours0 (fixedZone off) (Date (Some t)) =
     Date (Some (localDay (fixedZone off) t * msPerDay - off))"
  using assms by (simp add: localDay_def TimeClip_def UTC_def LocalTime_def fixedZone_def)

lemma getDueDateStatus_fixedZone:
  assumes "\<bar>localDay (fixedZone off) now * msPerDay - off\<bar> \<le> 8640000000000000"
    and "\<bar>localDay (fixedZone off) due * msPerDay - off\<bar> \<le> 8640000000000000"
  shows "getDueDateStatus (fixedZone off) now (Some (Date (Some due))) =
     Some (let d = localDay (fixedZone off) due - localDay (fixedZone off) now
           in if d < 0 then Overdue else if d = 0 then Today else if d \<le> 2 then Soon
              else Future)"
proof -
  let ?dn = "localDay (fixedZone off) now" and ?dd = "localDay (fixedZone off) due"
  have today: "setHours0 (fixedZone off) (Date (Some now)) = Date (Some (?dn * msPerDay - off))"
    by (rule setHours0_fixedZone [OF assms(1)])
  have dueDay: "setHours0 (fixedZone off) (Date (Some due)) = Date (Some (?dd * msPerDay - off))"
    by (rule setHours0_fixedZone [OF assms(2)])
  have "(?dd * msPerDay - off) - (?dn * msPerDay - off) = (?dd - ?dn) * msPerDay"
    by (simp add: algebra_simps)
  then have diffTime: "num_sub (Some (?dd * msPerDay - off)) (Some (?dn * msPerDay - off))
      = Some ((?dd - ?dn) * msPerDay)"
    by simp
  have "getDueDateStatus (fixedZone off) now (Some (Date (Some due))) =
      Some (classify (num_div (num_sub (Some (?dd * msPerDay - off))
        (Some (?dn * msPerDay - off))) msPerDay))"
    by (simp only: getDueDateStatus_def option.case Let_def today dueDay date.sel)
  also have "\<dots> = Some (classify (num_div (Some ((?dd - ?dn) * msPerDay)) msPerDay))"
    by (simp only: diffTime)
  also have "\<dots> = Some (let d = ?dd - ?dn
           in if d < 0 then Overdue else if d = 0 then Today else if d \<le> 2 then Soon
              else Future)"
    by (simp only: classify_whole_days Let_def)
  finally show ?thesis .
qed

text \<open>
  The four examples, in UTC, with today = 2024-01-10 (09:15) and due dates at 15:30 of
  2024-01-09, 2024-01-10, 2024-01-11 and 2024-01-20.
\<close>

lemma getDueDateStatus_examples_utc:
  "getDueDateStatus (fixedZone 0) 1704878100000 (Some (Date (Some 1704814200000))) = Some Overdue"
  "getDueDateStatus (fixedZone 0) 1704878100000 (Some (Date (Some 1704900600000))) = Some Today"
  "getDueDateStatus (fixedZone 0) 1704878100000 (Some (Date (Some 1704987000000))) = Some Soon"
  "getDueDateStatus (fixedZone 0) 1704878100000 (Some (Date (Some 1705764600000))) = Some Future"
  by (simp_all add: getDueDateStatus_def fixedZone_def LocalTime_def UTC_def
      TimeClip_def msPerDay_def)

section \<open>The Category Service\<close>

text \<open>
  C8: Category Delete leaves the Task collection as it is, whatever the name and
  whether or not a category is deleted; tasks whose category field carries the deleted
  name keep it.
\<close>

theorem categoryDelete_tasks_unchanged:
  "tasks (snd (categoryDelete param_name s)) = tasks s"
  by (simp add: categoryDelete_def Category_findOne_def Category_findByIdAndDelete_def
      split: option.split)

text \<open>
  C9: Category List answers 200 with an array of strings: the names of the stored
  categories, each as often as it is stored, in ascending lexicographic order.
\<close>

theorem categoryList_sorted_names:
  "categoryList s =
     \<lparr>status = 200, body = JArr (map JStr (map name (sort_key name (categories s))))\<rparr>
   \<and> sorted (map name (sort_key name (categories s)))
   \<and> mset (map name (sort_key name (categories s))) = mset (map name (categories s))"
proof -
  have "mset (sort_key name (categories s)) = mset (categories s)"
    by simp
  then have "image_mset name (mset (sort_key name (categories s)))
      = image_mset name (mset (categories s))"
    by (rule arg_cong)
  then show ?thesis
    by (simp add: categoryList_def Category_find_sorted_def o_def)
qed

subsection \<open>Names as the setters leave them\<close>

lemma toLowerChar_idem: "toLowerChar (toLowerChar c) = toLowerChar c"
  by (simp add: toLowerChar_def Let_def)

lemma isWhiteSpace_toLowerChar: "isWhiteSpace (toLowerChar c) = isWhiteSpace c"
  by (simp add: toLowerChar_def isWhiteSpace_def Let_def)

lemma toLowerCase_idem: "toLowerCase (toLowerCase s) = toLowerCase s"
  by (simp add: toLowerCase_def toLowerChar_idem)

lemma dropWhile_toLowerCase:
  "dropWhile isWhiteSpace (toLowerCase s) = toLowerCase (dropWhile isWhiteSpace s)"
  by (simp add: toLowerCase_def dropWhile_map o_def isWhiteSpace_toLowerChar)

lemma rev_toLowerCase: "rev (toLowerCase s) = toLowerCase (rev s)"
  by (simp add: toLowerCase_def rev_map)

lemma trim_toLowerCase: "trim (toLowerCase s) = toLowerCase (trim s)"
  by (simp only: trim_def dropWhile_toLowerCase rev_toLowerCase)

lemma name_setters_toLowerCase: "name_setters (toLowerCase n) = trim (toLowerCase n)"
  by (simp add: name_setters_def toLowerCase_idem)

lemma toLowerCase_name_setters: "toLowerCase (name_setters v) = name_setters v"
  by (simp add: name_setters_def trim_toLowerCase [symmetric] toLowerCase_idem)


subsection \<open>Category Create\<close>

lemma find_name_Some:
  assumes "\<exists>c \<in> set cs. name c = v"
  shows "\<exists>c. find (\<lambda>c. name c = v) cs = Some c"
proof (cases "find (\<lambda>c. name c = v) cs")
  case None
  then have "\<not> (\<exists>c. c \<in> set cs \<and> name c = v)"
    by (simp add: find_None_iff)
  with assms show ?thesis by blast
next
  case (Some c)
  then show ?thesis by blast
qed

text \<open>
  C3: if a category whose stored name equals the lowercased, trimmed candidate name
  exists, Category Create answers 400 with the message "Category already exists" (the
  ConflictError) and the store is the one before: nothing is inserted or modified.
\<close>

theorem categoryCreate_duplicate:
  assumes "\<exists>c \<in> set (categories s). name c = trim (toLowerCase n)"
  shows "categoryCreate now (Some n) s =
     (\<lparr>status = 400, body = message ''Category already exists''\<rparr>, s)"
proof -
  from assms obtain c where "find (\<lambda>c. name c = trim (toLowerCase n)) (categories s) = Some c"
    using find_name_Some by blast
  then show ?thesis
    by (simp add: categoryCreate_def Category_findOne_def name_setters_toLowerCase)
qed

theorem categoryCreate_duplicate_witness:
  "(\<exists>c \<in> set (categories \<lparr>categories = [\<lparr>cat_id = 0, name = ''work'', cat_createdAt = Date (Some 5)\<rparr>],
        tasks = [], nextId = 1\<rparr>). name c = trim (toLowerCase '' Work''))
   \<and> categoryCreate 9 (Some '' Work'')
        \<lparr>categories = [\<lparr>cat_id = 0, name = ''work'', cat_createdAt = Date (Some 5)\<rparr>],
         tasks = [], nextId = 1\<rparr> =
      (\<lparr>status = 400, body = message ''Category already exists''\<rparr>,
       \<lparr>categories = [\<lparr>cat_id = 0, name = ''work'', cat_createdAt = Date (Some 5)\<rparr>],
        tasks = [], nextId = 1\<rparr>)"
proof -
  have h: "\<exists>c \<in> set (categories \<lparr>categories = [\<lparr>cat_id = 0, name = ''work'', cat_createdAt = Date (Some 5)\<rparr>],
        tasks = [], nextId = 1\<rparr>). name c = trim (toLowerCase '' Work'')"
    by code_simp
  show ?thesis
    using h categoryCreate_duplicate [OF h, of 9] by blast
qed

text \<open>The three outcomes of Category Create for a candidate name.\<close>

lemma categoryCreate_cases:
  "categoryCreate now (Some n) s =
     (if \<exists>c \<in> set (categories s). name c = trim (toLowerCase n)
      then (\<lparr>status = 400, body = message ''Category already exists''\<rparr>, s)
      else if trim (toLowerCase n) = []
      then (\<lparr>status = 400, body = message (err_message ValidationError)\<rparr>, s)
      else (\<lparr>status = 201,
             body = category_json \<lparr>cat_id = nextId s, name = trim (toLowerCase n),
                                   cat_createdAt = Date (Some now)\<rparr>\<rparr>,
            s\<lparr>categories := categories s @
                 [\<lparr>cat_id = nextId s, name = trim (toLowerCase n),
                   cat_createdAt = Date (Some now)\<rparr>],
              nextId := Suc (nextId s)\<rparr>))"
proof (cases "\<exists>c \<in> set (categories s). name c = trim (toLowerCase n)")
  case True
  then obtain c where "find (\<lambda>c. name c = trim (toLowerCase n)) (categories s) = Some c"
    using find_name_Some by blast
  with True show ?thesis
    by (simp add: categoryCreate_def Category_findOne_def name_setters_toLowerCase)
next
  case False
  then have none: "find (\<lambda>c. name c = trim (toLowerCase n)) (categories s) = None"
    by (simp add: find_None_iff)
  from False have fresh: "trim (toLowerCase n) \<notin> name ` set (categories s)"
    by auto
  show ?thesis
    using False none fresh
    by (simp add: categoryCreate_def Category_findOne_def name_setters_toLowerCase
        Category_save_def new_Category_def)
qed

text \<open>
  C5, as the code has it: a successful Category Create (status 201) answers with the
  stored category document: its \<open>name\<close> field holds the lowercased, trimmed candidate
  name, and it carries the document's \<open>_id\<close> and \<open>createdAt\<close> besides. The document
  is appended to the collection, and \<open>createCategory\<close> of the client returns exactly
  the created name.
\<close>

theorem categoryCreate_success:
  assumes "status (fst (categoryCreate now (Some n) s)) = 201"
  shows "field (body (fst (categoryCreate now (Some n) s))) ''name''
           = Some (JStr (trim (toLowerCase n)))
   \<and> field (body (fst (categoryCreate now (Some n) s))) ''_id''
           = Some (JNum (int (nextId s)))
   \<and> field (body (fst (categoryCreate now (Some n) s))) ''createdAt''
           = Some (JNum now)
   \<and> categories (snd (categoryCreate now (Some n) s)) =
       categories s @ [\<lparr>cat_id = nextId s, name = trim (toLowerCase n),
                        cat_createdAt = Date (Some now)\<rparr>]
   \<and> createCategory now n s =
       (Inr (Some (JStr (trim (toLowerCase n)))), snd (categoryCreate now (Some n) s))"
  using assms
  by (simp add: categoryCreate_cases createCategory_def category_json_def split: if_splits)

text \<open>
  C5 as stated fails: the body of a successful create is not of the shape \<open>{name}\<close>
  and nothing more.
\<close>

theorem categoryCreate_body_counterexample:
  "status (fst (categoryCreate 5 (Some ''Work'') \<lparr>categories = [], tasks = [], nextId = 0\<rparr>)) = 201
   \<and> body (fst (categoryCreate 5 (Some ''Work'') \<lparr>categories = [], tasks = [], nextId = 0\<rparr>))
       \<noteq> JObj [(''name'', JStr ''work'')]"
  by code_simp

theorem categoryCreate_success_witness:
  "status (fst (categoryCreate 5 (Some '' Work'') \<lparr>categories = [], tasks = [], nextId = 0\<rparr>)) = 201
   \<and> createCategory 5 '' Work'' \<lparr>categories = [], tasks = [], nextId = 0\<rparr> =
       (Inr (Some (JStr ''work'')),
        \<lparr>categories = [\<lparr>cat_id = 0, name = ''work'', cat_createdAt = Date (Some 5)\<rparr>],
         tasks = [], nextId = 1\<rparr>)"
proof -
  have h: "status (fst (categoryCreate 5 (Some '' Work'') \<lparr>categories = [], tasks = [], nextId = 0\<rparr>)) = 201"
    by code_simp
  have e: "trim (toLowerCase '' Work'') = ''work''"
    by code_simp
  have s: "snd (categoryCreate 5 (Some '' Work'') \<lparr>categories = [], tasks = [], nextId = 0\<rparr>) =
      \<lparr>categories = [\<lparr>cat_id = 0, name = ''work'', cat_createdAt = Date (Some 5)\<rparr>],
         tasks = [], nextId = 1\<rparr>"
    by code_simp
  show ?thesis
    using h categoryCreate_success [OF h] by (simp only: e s simp_thms)
qed


subsection \<open>Uniqueness of category names\<close>

lemma set_delete_first: "set (delete_first P xs) \<subseteq> set xs"
  by (induction xs) auto

lemma distinct_map_delete_first:
  "distinct (map f xs) \<Longrightarrow> distinct (map f (delete_first P xs))"
proof (induction xs)
  case Nil
  then show ?case by simp
next
  case (Cons x xs)
  have "f x \<notin> f ` set (delete_first P xs)"
    using Cons.prems set_delete_first [of P xs] by auto
  with Cons show ?case by simp
qed

lemma stored_inv_create:
  assumes "names_normal s" and "distinct (map name (categories s))"
  shows "names_normal (snd (categoryCreate now req_name s))
    \<and> distinct (map name (categories (snd (categoryCreate now req_name s))))"
proof (cases req_name)
  case None
  with assms show ?thesis by (simp add: categoryCreate_def)
next
  case (Some n)
  have "toLowerCase (trim (toLowerCase n)) = trim (toLowerCase n)"
    by (simp add: trim_toLowerCase [symmetric] toLowerCase_idem)
  with assms Some show ?thesis
    by (auto simp: categoryCreate_cases names_normal_def)
qed

lemma stored_inv_delete:
  assumes "names_normal s" and "distinct (map name (categories s))"
  shows "names_normal (snd (categoryDelete param_name s))
    \<and> distinct (map name (categories (snd (categoryDelete param_name s))))"
proof -
  have "list_all P (delete_first Q xs)" if "list_all P xs" for P Q and xs :: "category_doc list"
    using that set_delete_first [of Q xs] by (auto simp: list_all_iff)
  with assms show ?thesis
    by (simp add: categoryDelete_def Category_findOne_def Category_findByIdAndDelete_def
        names_normal_def distinct_map_delete_first split: option.split)
qed

lemma reachable_stored_inv:
  "reachable s \<Longrightarrow> names_normal s \<and> distinct (map name (categories s))"
proof (induction rule: reachable.induct)
  case (init s)
  then show ?case by (simp add: names_normal_def)
next
  case (create s now req_name)
  then show ?case using stored_inv_create by blast
next
  case (list s r)
  then show ?case by simp
next
  case (delete s param_name)
  then show ?case using stored_inv_delete by blast
qed

lemma stored_inv_names_unique:
  assumes "names_normal s" and "distinct (map name (categories s))"
  shows "names_unique s"
proof -
  have eq: "map (\<lambda>c. toLowerCase (name c)) (categories s) = map name (categories s)"
    by (rule map_cong [OF refl]) (use assms(1) in \<open>simp add: names_normal_def list_all_iff\<close>)
  show ?thesis
    unfolding names_unique_def eq by (rule assms(2))
qed

text \<open>
  C7: in every state that Create, List and Delete reach from a store without
  categories, no two Category documents have the same lowercased name, and the state
  after one more Create or Delete has the property again (List changes nothing).
\<close>

theorem reachable_names_unique:
  assumes "reachable s"
  shows "names_unique s
    \<and> names_unique (snd (categoryCreate now req_name s))
    \<and> names_unique (snd (categoryDelete param_name s))"
proof -
  have "reachable (snd (categoryCreate now req_name s))"
    using assms by (rule reachable.create)
  moreover have "reachable (snd (categoryDelete param_name s))"
    using assms by (rule reachable.delete)
  ultimately show ?thesis
    using assms reachable_stored_inv stored_inv_names_unique by blast
qed

theorem reachable_names_unique_witness:
  "reachable (snd (categoryCreate 2 (Some ''work '')
       (snd (categoryCreate 1 (Some ''Work'') \<lparr>categories = [], tasks = [], nextId = 0\<rparr>))))
   \<and> names_unique (snd (categoryCreate 2 (Some ''work '')
       (snd (categoryCreate 1 (Some ''Work'') \<lparr>categories = [], tasks = [], nextId = 0\<rparr>))))
   \<and> map name (categories (snd (categoryCreate 2 (Some ''work '')
       (snd (categoryCreate 1 (Some ''Work'') \<lparr>categories = [], tasks = [], nextId = 0\<rparr>)))))
      = [''work'']"
proof -
  have "reachable \<lparr>categories = [], tasks = [], nextId = 0\<rparr>"
    by (rule reachable.init) simp
  then have h: "reachable (snd (categoryCreate 2 (Some ''work '')
       (snd (categoryCreate 1 (Some ''Work'') \<lparr>categories = [], tasks = [], nextId = 0\<rparr>))))"
    by (intro reachable.create)
  have e: "map name (categories (snd (categoryCreate 2 (Some ''work '')
       (snd (categoryCreate 1 (Some ''Work'') \<lparr>categories = [], tasks = [], nextId = 0\<rparr>)))))
      = [''work'']"
    by code_simp
  show ?thesis
    using h e reachable_names_unique [OF h] by blast
qed

section \<open>The Task Service and its client\<close>

text \<open>A string trims to the empty string exactly when it is empty or all white space.\<close>

lemma dropWhile_all_iff: "(\<forall>x \<in> set (dropWhile P xs). P x) = (\<forall>x \<in> set xs. P x)"
  by (induction xs) auto

lemma trim_empty_iff: "(trim s = []) = list_all isWhiteSpace s"
  by (simp add: trim_def dropWhile_eq_Nil_conv dropWhile_all_iff list_all_iff)

text \<open>
  C6: for a candidate whose title is empty or consists of white space only, Task
  Create fails with ValidationError and the store is the one before; the client's
  \<open>createTask\<close> throws (status 400) with the store unchanged; and \<open>handleAddTask\<close>,
  which checks the trimmed title itself, changes neither the store nor its task list
  and reports "Task title cannot be empty".
\<close>

theorem taskCreate_blank_title:
  assumes "list_all isWhiteSpace (title c)"
  shows "taskCreate now c s = (Inl ValidationError, s)
    \<and> createTask now c s = (Inl (HttpError 400), s)
    \<and> handleAddTask now (a\<lparr>newTask := c\<rparr>) s =
        (a\<lparr>newTask := c\<rparr>, s,
         \<lparr>toast_title = ''Error'', toast_description = ''Task title cannot be empty'',
          destructive = True\<rparr>)"
proof -
  from assms have "trim (title c) = []"
    by (simp add: trim_empty_iff)
  then show ?thesis
    by (simp add: taskCreate_def createTask_def handleAddTask_def)
qed

theorem taskCreate_blank_title_witness:
  "list_all isWhiteSpace (title (emptyNewTask\<lparr>title := ''   ''\<rparr>))
   \<and> taskCreate 7 (emptyNewTask\<lparr>title := ''   ''\<rparr>) \<lparr>categories = [], tasks = [], nextId = 0\<rparr>
       = (Inl ValidationError, \<lparr>categories = [], tasks = [], nextId = 0\<rparr>)"
proof -
  have h: "list_all isWhiteSpace (title (emptyNewTask\<lparr>title := ''   ''\<rparr>))"
    by code_simp
  show ?thesis
    using h taskCreate_blank_title [OF h] by blast
qed

subsection \<open>Task Update\<close>

lemma find_replace_first:
  assumes "find P xs = Some x" and "P y"
  shows "find P (replace_first P y xs) = Some y"
  using assms by (induction xs) (auto split: if_splits)

lemma taskUpdate_found:
  assumes "find (\<lambda>t. task_id t = i) (tasks s) = Some t"
  shows "taskUpdate i b s =
     (if (case p_title b of None \<Rightarrow> False | Some v \<Rightarrow> trim v = [])
      then (Inl ValidationError, s)
      else (Inr (apply_patch b t),
            s\<lparr>tasks := replace_first (\<lambda>x. task_id x = i) (apply_patch b t) (tasks s)\<rparr>))"
  by (simp add: taskUpdate_def assms Let_def)



text \<open>
  The client, from the source: \<open>saveEditedTask\<close> submits the six fields of the edited
  task and takes \<open>_id\<close> and \<open>createdAt\<close> out of what it sends, and \<open>updateTask\<close> sends
  that object. The stored record takes the edited fields and keeps its \<open>createdAt\<close>,
  and the client's list holds the updated record in place of the old one.
\<close>

lemma saveEditedTask_body:
  "p_id (request_body (taskData e)) = None \<and> p_createdAt (request_body (taskData e)) = None"
  by (simp add: request_body_def)

lemma saveEditedTask_store:
  assumes "editingTask a = Some e" and "trim (title e) \<noteq> []"
    and "find (\<lambda>t. task_id t = task_id e) (tasks s) = Some t"
  shows "\<exists>t'. find (\<lambda>x. task_id x = task_id e) (tasks (fst (snd (saveEditedTask a s)))) = Some t'
    \<and> app_tasks (fst (saveEditedTask a s)) =
        map (\<lambda>x. if task_id x = task_id e then t' else x) (app_tasks a)
    \<and> title t' = trim (title e) \<and> description t' = trim (description e)
    \<and> completed t' = completed e \<and> priority t' = priority e
    \<and> dueDate t' = dueDate e \<and> category t' = category e
    \<and> task_id t' = task_id t \<and> createdAt t' = createdAt t"
proof -
  let ?b = "request_body (taskData e)"
  have ok: "\<not> (case p_title ?b of None \<Rightarrow> False | Some v \<Rightarrow> trim v = [])"
    using assms(2) by (simp add: taskData_def request_body_def)
  define t' where "t' = apply_patch ?b t"
  have upd: "taskUpdate (task_id e) ?b s =
      (Inr t', s\<lparr>tasks := replace_first (\<lambda>x. task_id x = task_id e) t' (tasks s)\<rparr>)"
    using ok by (simp add: taskUpdate_found [OF assms(3)] t'_def)
  have "task_id t = task_id e"
    using assms(3) by (auto simp: find_Some_iff)
  then have id: "task_id t' = task_id e"
    by (simp add: t'_def apply_patch_def)
  have stored: "find (\<lambda>x. task_id x = task_id e)
      (replace_first (\<lambda>x. task_id x = task_id e) t' (tasks s)) = Some t'"
    using find_replace_first [OF assms(3), of t'] id by simp
  have save: "saveEditedTask a s =
      (a\<lparr>app_tasks := map (\<lambda>x. if task_id x = task_id e then t' else x) (app_tasks a),
         editingTask := None, isEditDialogOpen := False, isSubmitting := False\<rparr>,
       s\<lparr>tasks := replace_first (\<lambda>x. task_id x = task_id e) t' (tasks s)\<rparr>,
       Some \<lparr>toast_title = ''Task updated'',
             toast_description = ''Your task has been updated successfully'',
             destructive = False\<rparr>)"
    using assms(1,2) by (simp add: saveEditedTask_def updateTask_def upd)
  have fields: "title t' = trim (title e) \<and> description t' = trim (description e)
    \<and> completed t' = completed e \<and> priority t' = priority e
    \<and> dueDate t' = dueDate e \<and> category t' = category e
    \<and> task_id t' = task_id t \<and> createdAt t' = createdAt t"
    by (simp add: t'_def apply_patch_def taskData_def request_body_def)
  show ?thesis
    by (rule exI [of _ t']) (simp add: save stored fields)
qed

end
